theory Spec2Isabelle
  imports Complex_Main
begin

section \<open>Entity model (crm/models.py)\<close>

text \<open>
  The three model classes become records, one row each; a table is the list of
  its rows in insertion order, as the persistence layer reads them. Primary
  keys and foreign keys are integers. A \<open>DecimalField\<close> column reads as a
  finite decimal number, represented exactly as a rational; Python's
  \<open>Decimal\<close> arithmetic on such values is exact, so \<open>+\<close> on \<open>rat\<close> is what \<open>sum\<close>
  computes. Timestamps are natural numbers. The many-to-many relation
  \<open>Order.products\<close> is the join table of the persisted layout: pairs
  (order key, product key).
\<close>

type_synonym key = int
type_synonym decimal = rat
type_synonym datetime = nat

record Customer =
  c_id :: key
  c_name :: string
  c_email :: string
  c_phone :: "string option"

record Product =
  p_id :: key
  p_name :: string
  p_description :: "string option"
  p_stock :: int
  p_price :: decimal

record Order =
  o_id :: key
  o_customer :: key
  o_total_amount :: decimal
  o_order_date :: datetime

record database =
  customers :: "Customer list"
  products :: "Product list"
  orders :: "Order list"
  order_products :: "(key \<times> key) list"

definition empty_db :: database where
  "empty_db = \<lparr>customers = [], products = [], orders = [], order_products = []\<rparr>"

text \<open>Primary keys are unique within their table.\<close>

definition wf_db :: "database \<Rightarrow> bool" where
  "wf_db db \<longleftrightarrow>
     distinct (map c_id (customers db)) \<and>
     distinct (map p_id (products db)) \<and>
     distinct (map o_id (orders db))"

section \<open>Exceptions\<close>

text \<open>
  Every \<open>raise GraphQLError(msg)\<close> of crm/schema.py is the value
  \<open>GraphQLError msg\<close> with the literal message of the source. The other
  constructors are exceptions that leave a mutation without being caught:
  \<open>InvalidOperation\<close> is the signal of the decimal module;
  \<open>IdentifierError\<close> is the \<open>ValueError\<close> or \<open>OverflowError\<close> with which a
  lookup ends when an identifier cannot be converted to a key of the column;
  \<open>ColumnValueError\<close> is the refusal of the persistence layer to hold a
  decimal in a \<open>DecimalField\<close> column; \<open>DatabaseError\<close> is the failure of
  \<open>save(update_fields=...)\<close> when no row was updated.
\<close>

datatype exn =
    GraphQLError string
  | InvalidOperation
  | IdentifierError
  | ColumnValueError
  | DatabaseError

datatype error_kind = ValidationError | DuplicateError | FormatError | NotFoundError

text \<open>
  Modelled from the spec: the error kinds of its sections 4 and 7, which the
  source expresses only through the messages of its \<open>GraphQLError\<close>s. Each
  message is given the kind under which the spec's contract of the raising
  operation lists it.
\<close>

definition kind_of :: "exn \<Rightarrow> error_kind option" where
  "kind_of e =
     (if e = GraphQLError ''Invalid email format'' then Some ValidationError
      else if e = GraphQLError ''Email already exists'' then Some DuplicateError
      else if e = GraphQLError ''Invalid phone format. Use +1234567890 or 123-456-7890''
        then Some ValidationError
      else if e = GraphQLError ''Invalid decimal format for price'' then Some FormatError
      else if e = GraphQLError ''Price must be positive'' then Some ValidationError
      else if e = GraphQLError ''Stock cannot be negative'' then Some ValidationError
      else if e = GraphQLError ''Invalid customer ID'' then Some NotFoundError
      else if e = GraphQLError ''Some product IDs are invalid'' then Some NotFoundError
      else if e = GraphQLError ''Order must include at least one product''
        then Some ValidationError
      else None)"

section \<open>Values of Python's Decimal\<close>

text \<open>
  \<open>Decimal(s)\<close> yields a finite decimal number, an infinity or a NaN. The
  constructor itself belongs to the standard library and is a parameter of
  \<open>create_product\<close> below: a partial function from strings, \<open>None\<close> where the
  constructor raises. The comparison \<open>d <= 0\<close> signals \<open>InvalidOperation\<close> when
  \<open>d\<close> is a NaN; the signal is trapped in the default context, so it is
  raised as an exception.
\<close>

datatype py_decimal = Finite rat | Infinity | NegInfinity | NaN

fun decimal_le_zero :: "py_decimal \<Rightarrow> exn + bool" where
  "decimal_le_zero (Finite r) = Inr (r \<le> 0)"
| "decimal_le_zero Infinity = Inr False"
| "decimal_le_zero NegInfinity = Inr True"
| "decimal_le_zero NaN = Inl InvalidOperation"

section \<open>Persistence calls used by the mutations\<close>

text \<open>
  \<open>Model.objects.create\<close> appends a row under a fresh primary key and returns
  the instance it was given, with that key.
\<close>

definition fresh_id :: "key list \<Rightarrow> key" where
  "fresh_id ids = 1 + foldr max ids 0"

definition Customer_objects_create ::
  "database \<Rightarrow> string \<Rightarrow> string \<Rightarrow> string option \<Rightarrow> database \<times> Customer" where
  "Customer_objects_create db name email phone =
     (let c = \<lparr>c_id = fresh_id (map c_id (customers db)), c_name = name,
                c_email = email, c_phone = phone\<rparr>
      in (db\<lparr>customers := customers db @ [c]\<rparr>, c))"

text \<open>
  The price column of a product is \<open>DecimalField(max_digits=10,
  decimal_places=2)\<close>. What the column gives back for a finite decimal
  written to it depends on the storage engine (its rounding to two places)
  and is the parameter \<open>column\<close>: \<open>Some q\<close> when the row then reads with price
  \<open>q\<close>, \<open>None\<close> when the column does not hold the value (more digits than
  \<open>max_digits\<close>); the model then takes the call to end with the exception of
  the persistence layer. A value that is not finite is refused. The instance
  returned keeps the price it was given.
\<close>

definition Product_objects_create ::
  "(rat \<Rightarrow> decimal option) \<Rightarrow> database \<Rightarrow> string \<Rightarrow> py_decimal \<Rightarrow> int
     \<Rightarrow> database \<times> (exn + Product)" where
  "Product_objects_create column db name price stock =
     (case price of
        Finite r \<Rightarrow>
          (case column r of
             None \<Rightarrow> (db, Inl ColumnValueError)
           | Some q \<Rightarrow>
               (let p = \<lparr>p_id = fresh_id (map p_id (products db)), p_name = name,
                         p_description = None, p_stock = stock, p_price = r\<rparr>
                in (db\<lparr>products := products db @ [p\<lparr>p_price := q\<rparr>]\<rparr>, Inr p)))
      | _ \<Rightarrow> (db, Inl ColumnValueError))"

definition Order_objects_create ::
  "database \<Rightarrow> key \<Rightarrow> datetime \<Rightarrow> decimal \<Rightarrow> database \<times> Order" where
  "Order_objects_create db customer order_date total_amount =
     (let ord = \<lparr>o_id = fresh_id (map o_id (orders db)), o_customer = customer,
                  o_total_amount = total_amount, o_order_date = order_date\<rparr>
      in (db\<lparr>orders := orders db @ [ord]\<rparr>, ord))"

text \<open>
  A GraphQL identifier is a string. A lookup converts it to a key of the
  column, and ends with an exception where that fails (a string that is not a
  number, a number outside the range of the column). The conversion belongs
  to the persistence layer and is the parameter \<open>pk\<close>: \<open>None\<close> where the lookup
  raises.

  \<open>Customer.objects.get(id=...)\<close>: the exception of the conversion, or the row,
  or \<open>DoesNotExist\<close> as \<open>None\<close>.
\<close>

definition Customer_objects_get ::
  "(string \<Rightarrow> key option) \<Rightarrow> database \<Rightarrow> string \<Rightarrow> exn + Customer option" where
  "Customer_objects_get pk db i =
     (case pk i of
        None \<Rightarrow> Inl IdentifierError
      | Some k \<Rightarrow> Inr (find (\<lambda>c. c_id c = k) (customers db)))"

text \<open>\<open>Customer.objects.filter(email=...).exists()\<close>\<close>

definition email_exists :: "database \<Rightarrow> string \<Rightarrow> bool" where
  "email_exists db email = list_ex (\<lambda>c. c_email c = email) (customers db)"

text \<open>
  \<open>list(Product.objects.filter(id__in=ids))\<close>: the exception of the conversion
  when one of the identifiers does not convert, otherwise each row whose key
  is among the converted identifiers, once.
\<close>

definition Product_objects_filter_id_in ::
  "(string \<Rightarrow> key option) \<Rightarrow> database \<Rightarrow> string list \<Rightarrow> exn + Product list" where
  "Product_objects_filter_id_in pk db ids =
     (case those (map pk ids) of
        None \<Rightarrow> Inl IdentifierError
      | Some ks \<Rightarrow> Inr (filter (\<lambda>p. p_id p \<in> set ks) (products db)))"

text \<open>
  \<open>order.products.set(ps)\<close> replaces the links of the order by links to \<open>ps\<close>;
  \<open>order.products.all()\<close> reads the product rows linked to the order.
\<close>

definition products_set :: "database \<Rightarrow> Order \<Rightarrow> Product list \<Rightarrow> database" where
  "products_set db ord ps =
     db\<lparr>order_products :=
          filter (\<lambda>l. fst l \<noteq> o_id ord) (order_products db)
          @ map (\<lambda>p. (o_id ord, p_id p)) ps\<rparr>"

definition products_all :: "database \<Rightarrow> Order \<Rightarrow> Product list" where
  "products_all db ord =
     filter (\<lambda>p. (o_id ord, p_id p) \<in> set (order_products db)) (products db)"

section \<open>Order creation (CreateOrder.mutate)\<close>

record OrderInput =
  oi_customer_id :: string
  oi_product_ids :: "string list"
  oi_order_date :: "datetime option"

text \<open>
  The second argument is the value of \<open>timezone.now()\<close>. A mutation returns the
  database it leaves behind together with its outcome: \<open>Inl\<close> the exception
  raised, \<open>Inr\<close> the payload returned.
\<close>

definition create_order ::
  "(string \<Rightarrow> key option) \<Rightarrow> datetime \<Rightarrow> database \<Rightarrow> OrderInput
     \<Rightarrow> database \<times> (exn + Order \<times> string)" where
  "create_order pk now db inp =
     (case Customer_objects_get pk db (oi_customer_id inp) of
        Inl e \<Rightarrow> (db, Inl e)
      | Inr None \<Rightarrow> (db, Inl (GraphQLError ''Invalid customer ID''))
      | Inr (Some customer) \<Rightarrow>
          (case Product_objects_filter_id_in pk db (oi_product_ids inp) of
             Inl e \<Rightarrow> (db, Inl e)
           | Inr ps \<Rightarrow>
               if length ps \<noteq> length (oi_product_ids inp)
                 then (db, Inl (GraphQLError ''Some product IDs are invalid''))
               else if ps = []
                 then (db, Inl (GraphQLError ''Order must include at least one product''))
               else
                 (let total_amount = sum_list (map p_price ps);
                      (db1, ord) = Order_objects_create db (c_id customer)
                         (case oi_order_date inp of None \<Rightarrow> now | Some d \<Rightarrow> d)
                         total_amount;
                      db2 = products_set db1 ord ps
                  in (db2, Inr (ord, ''Order created successfully'')))))"

section \<open>String operations of the validation code\<close>

text \<open>
  \<open>startswith s pre\<close> is \<open>s.startswith(pre)\<close>, \<open>remove_hyphens s\<close> is
  \<open>s.replace("-", "")\<close>, and \<open>str_nat n\<close> is the decimal numeral that an
  f-string prints for \<open>n\<close>. \<open>str.isdigit\<close> follows the Unicode character
  database and is a parameter, \<open>isdigit\<close>, of the operations that call it.
  \<open>ascii_isdigit\<close> is what it computes on strings of ASCII characters: false on
  the empty string, true when every character is one of the ten digits.
\<close>

definition is_digit_char :: "char \<Rightarrow> bool" where
  "is_digit_char c = (c \<in> set ''0123456789'')"

definition ascii_isdigit :: "string \<Rightarrow> bool" where
  "ascii_isdigit s = (s \<noteq> [] \<and> list_all is_digit_char s)"

definition startswith :: "string \<Rightarrow> string \<Rightarrow> bool" where
  "startswith s pre = (take (length pre) s = pre)"

definition remove_hyphens :: "string \<Rightarrow> string" where
  "remove_hyphens s = filter (\<lambda>c. c \<noteq> CHR ''-'') s"

definition digit_char :: "nat \<Rightarrow> char" where
  "digit_char d = ''0123456789'' ! (d mod 10)"

fun str_nat :: "nat \<Rightarrow> string" where
  "str_nat n = (if n < 10 then [digit_char n] else str_nat (n div 10) @ [digit_char n])"

declare str_nat.simps [simp del]

section \<open>Customer creation (CreateCustomer.mutate)\<close>

record CustomerInput =
  ci_name :: string
  ci_email :: string
  ci_phone :: "string option"

text \<open>
  The guard of the phone check,
  \<open>phone and not (phone.startswith("+") or phone.replace("-", "").isdigit())\<close>:
  \<open>None\<close> and the empty string are falsy.
\<close>

definition phone_rejected :: "(string \<Rightarrow> bool) \<Rightarrow> string option \<Rightarrow> bool" where
  "phone_rejected isdigit phone =
     (case phone of
        None \<Rightarrow> False
      | Some p \<Rightarrow> p \<noteq> [] \<and> \<not> (startswith p ''+'' \<or> isdigit (remove_hyphens p)))"

text \<open>
  \<open>validate_email\<close> is Django's validator, a parameter: true where the validator
  returns, false where it raises \<open>ValidationError\<close>.
\<close>

definition create_customer ::
  "(string \<Rightarrow> bool) \<Rightarrow> (string \<Rightarrow> bool) \<Rightarrow> database \<Rightarrow> CustomerInput
     \<Rightarrow> database \<times> (exn + Customer \<times> string)" where
  "create_customer validate_email isdigit db inp =
     (if \<not> validate_email (ci_email inp)
        then (db, Inl (GraphQLError ''Invalid email format''))
      else if email_exists db (ci_email inp)
        then (db, Inl (GraphQLError ''Email already exists''))
      else if phone_rejected isdigit (ci_phone inp)
        then (db, Inl (GraphQLError ''Invalid phone format. Use +1234567890 or 123-456-7890''))
      else
        (let (db1, customer) =
               Customer_objects_create db (ci_name inp) (ci_email inp) (ci_phone inp)
         in (db1, Inr (customer, ''Customer created successfully''))))"

section \<open>Bulk customer creation (BulkCreateCustomers.mutate)\<close>

text \<open>
  One iteration of the loop over \<open>enumerate(input, start=1)\<close>, on the state
  (database, \<open>created_customers\<close>, \<open>errors\<close>). No exception leaves the body of
  the loop, so the enclosing \<open>transaction.atomic()\<close> commits what the rows wrote.
\<close>

definition bulk_row ::
  "(string \<Rightarrow> bool) \<Rightarrow> (string \<Rightarrow> bool) \<Rightarrow> nat \<times> CustomerInput
     \<Rightarrow> database \<times> Customer list \<times> string list
     \<Rightarrow> database \<times> Customer list \<times> string list" where
  "bulk_row validate_email isdigit row st =
     (case (row, st) of ((idx, cust), (db, created_customers, errors)) \<Rightarrow>
        if \<not> validate_email (ci_email cust)
          then (db, created_customers,
                errors @ [''Row '' @ str_nat idx @ '': Invalid email format''])
        else if email_exists db (ci_email cust)
          then (db, created_customers,
                errors @ [''Row '' @ str_nat idx @ '': Email already exists''])
        else if phone_rejected isdigit (ci_phone cust)
          then (db, created_customers,
                errors @ [''Row '' @ str_nat idx @ '': Invalid phone format''])
        else
          (let (db1, customer) =
                 Customer_objects_create db (ci_name cust) (ci_email cust) (ci_phone cust)
           in (db1, created_customers @ [customer], errors)))"

definition bulk_create_customers ::
  "(string \<Rightarrow> bool) \<Rightarrow> (string \<Rightarrow> bool) \<Rightarrow> database \<Rightarrow> CustomerInput list
     \<Rightarrow> database \<times> Customer list \<times> string list" where
  "bulk_create_customers validate_email isdigit db input =
     fold (bulk_row validate_email isdigit) (enumerate 1 input) (db, [], [])"

section \<open>Product creation (CreateProduct.mutate)\<close>

text \<open>
  \<open>pi_stock\<close> is the integer the mutation receives: the default 0 of the input
  type has been filled in by then.
\<close>

record ProductInput =
  pi_name :: string
  pi_price :: string
  pi_stock :: int

definition create_product ::
  "(string \<Rightarrow> py_decimal option) \<Rightarrow> (rat \<Rightarrow> decimal option) \<Rightarrow> database \<Rightarrow> ProductInput
     \<Rightarrow> database \<times> (exn + Product \<times> string)" where
  "create_product Decimal column db inp =
     (case Decimal (pi_price inp) of
        None \<Rightarrow> (db, Inl (GraphQLError ''Invalid decimal format for price''))
      | Some price \<Rightarrow>
          (case decimal_le_zero price of
             Inl e \<Rightarrow> (db, Inl e)
           | Inr True \<Rightarrow> (db, Inl (GraphQLError ''Price must be positive''))
           | Inr False \<Rightarrow>
               if pi_stock inp < 0
                 then (db, Inl (GraphQLError ''Stock cannot be negative''))
               else
                 (case Product_objects_create column db (pi_name inp) price (pi_stock inp) of
                    (db1, Inl e) \<Rightarrow> (db1, Inl e)
                  | (db1, Inr product) \<Rightarrow>
                      (db1, Inr (product, ''Product created successfully'')))))"

section \<open>Recomputing an order's total (Order.calculate_total)\<close>

text \<open>
  \<open>save(update_fields=["total_amount"])\<close> writes the one column of the row whose
  primary key is that of the instance, and raises \<open>DatabaseError\<close> when there is
  no such row.
\<close>

definition save_total_amount :: "database \<Rightarrow> Order \<Rightarrow> database \<times> (exn + unit)" where
  "save_total_amount db self =
     (if list_ex (\<lambda>r. o_id r = o_id self) (orders db)
        then (db\<lparr>orders := map (\<lambda>r. if o_id r = o_id self
                                       then r\<lparr>o_total_amount := o_total_amount self\<rparr>
                                       else r) (orders db)\<rparr>, Inr ())
      else (db, Inl DatabaseError))"

text \<open>
  The method returns the database, the instance \<open>self\<close> after the assignment to
  its attribute, and the value returned or the exception raised.
\<close>

definition calculate_total :: "database \<Rightarrow> Order \<Rightarrow> database \<times> Order \<times> (exn + decimal)" where
  "calculate_total db self =
     (let total = sum_list (map p_price (products_all db self));
          self1 = self\<lparr>o_total_amount := total\<rparr>
      in case save_total_amount db self1 of
           (db1, Inl e) \<Rightarrow> (db1, self1, Inl e)
         | (db1, Inr u) \<Rightarrow> (db1, self1, Inr total))"

text \<open>The total stored in the row of an order, if the row exists.\<close>

definition stored_total :: "database \<Rightarrow> key \<Rightarrow> decimal option" where
  "stored_total db i = map_option o_total_amount (find (\<lambda>r. o_id r = i) (orders db))"

text \<open>
  Modelled from the spec: a change of a product's price (spec sections 3 and 8).
  No operation of the source performs one; it is an update of the price
  column of one product row, made from outside.
\<close>

definition change_price :: "database \<Rightarrow> key \<Rightarrow> decimal \<Rightarrow> database" where
  "change_price db pid price =
     db\<lparr>products := map (\<lambda>p. if p_id p = pid then p\<lparr>p_price := price\<rparr> else p)
                        (products db)\<rparr>"

section \<open>The phone formats of the specification\<close>

text \<open>
  The two forms of spec section 4.1, for comparison with \<open>phone_rejected\<close>:
  a plus sign followed by digits only, and groups of digits separated by
  hyphens. A group of digits has at least one digit.
\<close>

definition spec_digits :: "string \<Rightarrow> bool" where
  "spec_digits s = (s \<noteq> [] \<and> list_all is_digit_char s)"

fun split_hyphen :: "string \<Rightarrow> string list" where
  "split_hyphen [] = [[]]"
| "split_hyphen (c # cs) =
     (if c = CHR ''-'' then [] # split_hyphen cs
      else (case split_hyphen cs of [] \<Rightarrow> [[c]] | g # gs \<Rightarrow> (c # g) # gs))"

definition spec_plus_digits :: "string \<Rightarrow> bool" where
  "spec_plus_digits p = (case p of [] \<Rightarrow> False | c # ds \<Rightarrow> c = CHR ''+'' \<and> spec_digits ds)"

definition spec_digit_groups :: "string \<Rightarrow> bool" where
  "spec_digit_groups p = list_all spec_digits (split_hyphen p)"

definition spec_phone_form :: "string \<Rightarrow> bool" where
  "spec_phone_form p = (spec_plus_digits p \<or> spec_digit_groups p)"

section \<open>The row-by-row account of bulk creation\<close>

text \<open>
  Spec section 4.2 read row by row: a row either fails the validation of
  customer creation, and gives the message tagged with its row number, or is
  persisted, and gives the created customer; the next row sees the database
  the row left.
\<close>

definition row_failure ::
  "(string \<Rightarrow> bool) \<Rightarrow> (string \<Rightarrow> bool) \<Rightarrow> database \<Rightarrow> CustomerInput \<Rightarrow> string option" where
  "row_failure validate_email isdigit db cust =
     (if \<not> validate_email (ci_email cust) then Some ''Invalid email format''
      else if email_exists db (ci_email cust) then Some ''Email already exists''
      else if phone_rejected isdigit (ci_phone cust) then Some ''Invalid phone format''
      else None)"

fun row_results ::
  "(string \<Rightarrow> bool) \<Rightarrow> (string \<Rightarrow> bool) \<Rightarrow> database \<Rightarrow> nat \<Rightarrow> CustomerInput list
     \<Rightarrow> database \<times> (string + Customer) list" where
  "row_results validate_email isdigit db idx [] = (db, [])"
| "row_results validate_email isdigit db idx (cust # rest) =
     (case row_failure validate_email isdigit db cust of
        Some msg \<Rightarrow>
          (let (db', outs) = row_results validate_email isdigit db (Suc idx) rest
           in (db', Inl (''Row '' @ str_nat idx @ '': '' @ msg) # outs))
      | None \<Rightarrow>
          (let (db1, customer) =
                 Customer_objects_create db (ci_name cust) (ci_email cust) (ci_phone cust);
               (db', outs) = row_results validate_email isdigit db1 (Suc idx) rest
           in (db', Inr customer # outs)))"

fun lefts :: "('a + 'b) list \<Rightarrow> 'a list" where
  "lefts [] = []"
| "lefts (Inl a # xs) = a # lefts xs"
| "lefts (Inr b # xs) = lefts xs"

fun rights :: "('a + 'b) list \<Rightarrow> 'b list" where
  "rights [] = []"
| "rights (Inl a # xs) = rights xs"
| "rights (Inr b # xs) = b # rights xs"

section \<open>Example data\<close>

definition demo_db :: database where
  "demo_db =
     \<lparr>customers = [\<lparr>c_id = 1, c_name = ''Alice Johnson'', c_email = ''alice@example.com'',
                     c_phone = Some ''+1234567890''\<rparr>],
      products = [\<lparr>p_id = 1, p_name = ''p1'', p_description = None, p_stock = 10,
                    p_price = 10\<rparr>,
                  \<lparr>p_id = 2, p_name = ''p2'', p_description = None, p_stock = 50,
                    p_price = 11 / 2\<rparr>,
                  \<lparr>p_id = 3, p_name = ''p3'', p_description = None, p_stock = 5,
                    p_price = 3\<rparr>],
      orders = [], order_products = []\<rparr>"

text \<open>
  The database after the order of the first two products has been created at
  time 7; the third product belongs to no order.
\<close>

definition demo_order :: Order where
  "demo_order = \<lparr>o_id = 1, o_customer = 1, o_total_amount = 31 / 2, o_order_date = 7\<rparr>"

definition demo_orders_db :: database where
  "demo_orders_db = demo_db\<lparr>orders := [demo_order], order_products := [(1, 1), (1, 2)]\<rparr>"




text \<open>A stand-in for the email validator in the examples: an address has an at sign.\<close>

definition has_at :: "string \<Rightarrow> bool" where
  "has_at s = (CHR ''@'' \<in> set s)"

text \<open>
  The conversion of identifiers on the strings of the examples; it converts no
  other string, in particular not \<open>abc\<close>.
\<close>

definition demo_pk :: "string \<Rightarrow> key option" where
  "demo_pk = [''1'' \<mapsto> 1, ''2'' \<mapsto> 2, ''3'' \<mapsto> 3, ''7'' \<mapsto> 7, ''9'' \<mapsto> 9]"

section \<open>Facts about identifier resolution\<close>

lemma those_map_Some:
  "those (map pk ids) = Some ks \<Longrightarrow> ks = map (\<lambda>i. the (pk i)) ids \<and> (\<forall>i \<in> set ids. pk i \<noteq> None)"
proof (induction ids arbitrary: ks)
  case Nil
  then show ?case by simp
next
  case (Cons i ids)
  then show ?case by (cases "pk i"; cases "those (map pk ids)") auto
qed

lemma those_map_None:
  "i \<in> set ids \<Longrightarrow> pk i = None \<Longrightarrow> those (map pk ids) = None"
proof (induction ids)
  case Nil
  then show ?case by simp
next
  case (Cons j ids)
  then show ?case by (cases "pk j") (auto split: option.splits)
qed

lemma those_map_length: "those (map pk ids) = Some ks \<Longrightarrow> length ks = length ids"
  using those_map_Some [of pk ids ks] by simp


lemma length_filter_keys:
  assumes "distinct (map p_id ps)"
  shows "length (filter (\<lambda>p. p_id p \<in> set ks) ps) = card (set ks \<inter> p_id ` set ps)"
proof -
  let ?qs = "filter (\<lambda>p. p_id p \<in> set ks) ps"
  have d: "distinct (map p_id ?qs)"
    using assms by (simp add: distinct_map_filter)
  have s: "set (map p_id ?qs) = set ks \<inter> p_id ` set ps"
    by auto
  have "length ?qs = length (map p_id ?qs)" by simp
  also have "\<dots> = card (set (map p_id ?qs))"
    using d by (simp only: distinct_card)
  finally show ?thesis using s by simp
qed


lemma unresolved_key_length:
  assumes "distinct (map p_id ps)"
    and "k \<in> set ks" and "k \<notin> p_id ` set ps"
  shows "length (filter (\<lambda>p. p_id p \<in> set ks) ps) < length ks"
proof -
  have "set ks \<inter> p_id ` set ps \<subset> set ks"
    using assms(2,3) by auto
  then have "card (set ks \<inter> p_id ` set ps) < card (set ks)"
    by (simp add: psubset_card_mono)
  also have "\<dots> \<le> length ks" by (rule card_length)
  finally show ?thesis using assms(1) by (simp add: length_filter_keys)
qed


lemma resolved_all_requested:
  assumes "distinct (map p_id ps)"
    and "length (filter (\<lambda>p. p_id p \<in> set ks) ps) = length ks"
  shows "set ks \<subseteq> p_id ` set ps \<and> distinct ks"
proof -
  have a: "card (set ks \<inter> p_id ` set ps) = length ks"
    using assms by (simp add: length_filter_keys)
  have b: "card (set ks \<inter> p_id ` set ps) \<le> card (set ks)"
    by (simp add: card_mono)
  have c: "card (set ks) \<le> length ks" by (rule card_length)
  from a b c have d: "card (set ks) = length ks" by simp
  with a have "card (set ks \<inter> p_id ` set ps) = card (set ks)" by simp
  then have "set ks \<inter> p_id ` set ps = set ks"
    by (intro card_subset_eq) auto
  with d show ?thesis by (auto simp: card_distinct)
qed

lemma find_key_None: "i \<notin> set (map f xs) \<Longrightarrow> find (\<lambda>r. f r = i) xs = None"
  by (induction xs) auto

lemma find_snoc:
  "find P (xs @ [x]) = (case find P xs of None \<Rightarrow> (if P x then Some x else None) | Some y \<Rightarrow> Some y)"
  by (induction xs) auto

lemma fresh_id_greater: "i \<in> set ids \<Longrightarrow> i < fresh_id ids"
  by (induction ids) (auto simp: fresh_id_def)

lemma fresh_id_notin: "fresh_id ids \<notin> set ids"
  using fresh_id_greater [of "fresh_id ids" ids] by auto

section \<open>Order creation: results\<close>

lemma create_order_unfold:
  "create_order pk now db inp =
     (case pk (oi_customer_id inp) of
        None \<Rightarrow> (db, Inl IdentifierError)
      | Some k \<Rightarrow>
          (case find (\<lambda>c. c_id c = k) (customers db) of
             None \<Rightarrow> (db, Inl (GraphQLError ''Invalid customer ID''))
           | Some customer \<Rightarrow>
               (case those (map pk (oi_product_ids inp)) of
                  None \<Rightarrow> (db, Inl IdentifierError)
                | Some ks \<Rightarrow>
                    (let ps = filter (\<lambda>p. p_id p \<in> set ks) (products db) in
                     if length ps \<noteq> length (oi_product_ids inp)
                       then (db, Inl (GraphQLError ''Some product IDs are invalid''))
                     else if ps = []
                       then (db, Inl (GraphQLError ''Order must include at least one product''))
                     else
                       (let ord = \<lparr>o_id = fresh_id (map o_id (orders db)),
                                   o_customer = c_id customer,
                                   o_total_amount = sum_list (map p_price ps),
                                   o_order_date =
                                     (case oi_order_date inp of None \<Rightarrow> now | Some d \<Rightarrow> d)\<rparr>
                        in (db\<lparr>orders := orders db @ [ord],
                               order_products :=
                                 filter (\<lambda>l. fst l \<noteq> o_id ord) (order_products db)
                                 @ map (\<lambda>p. (o_id ord, p_id p)) ps\<rparr>,
                            Inr (ord, ''Order created successfully'')))))))"
  by (simp add: create_order_def Customer_objects_get_def Product_objects_filter_id_in_def
           Order_objects_create_def products_set_def Let_def
           split: option.splits)

lemma kind_of_simps:
  "kind_of (GraphQLError ''Invalid customer ID'') = Some NotFoundError"
  "kind_of (GraphQLError ''Some product IDs are invalid'') = Some NotFoundError"
  "kind_of (GraphQLError ''Order must include at least one product'') = Some ValidationError"
  "kind_of IdentifierError = None"
  by (simp_all add: kind_of_def)

lemma products_all_after_set:
  "products_all
     (db\<lparr>orders := rows,
         order_products := filter (\<lambda>l. fst l \<noteq> o_id ord) (order_products db)
                           @ map (\<lambda>p. (o_id ord, p_id p))
                               (filter (\<lambda>p. p_id p \<in> set ks) (products db))\<rparr>) ord
     = filter (\<lambda>p. p_id p \<in> set ks) (products db)"
  unfolding products_all_def by (auto intro!: filter_cong)

lemmas demo_eval = demo_db_def demo_pk_def create_order_unfold fresh_id_def
  products_all_def wf_db_def Let_def

text \<open>
  Claim C1. A successful \<open>create_order\<close> had a customer identifier that
  resolves and product identifiers that all resolve; the total of the order
  it returns is the exact sum of the prices the resolved products have in the
  database at that moment; the order is a row of the resulting database, and
  the products linked to it there are exactly the resolved ones, which are
  exactly the requested ones. The witness is the order of products priced
  10.00 and 5.50, whose total is 15.50.
\<close>

theorem create_order_total_amount:
  assumes wf: "wf_db db"
    and ok: "create_order pk now db inp = (db', Inr (ord, msg))"
  shows "\<exists>k ks. pk (oi_customer_id inp) = Some k
       \<and> find (\<lambda>c. c_id c = k) (customers db) \<noteq> None
       \<and> those (map pk (oi_product_ids inp)) = Some ks
       \<and> set ks \<subseteq> p_id ` set (products db)
       \<and> o_total_amount ord
           = sum_list (map p_price (filter (\<lambda>p. p_id p \<in> set ks) (products db)))
       \<and> ord \<in> set (orders db')
       \<and> stored_total db' (o_id ord) = Some (o_total_amount ord)
       \<and> products_all db' ord = filter (\<lambda>p. p_id p \<in> set ks) (products db)
       \<and> p_id ` set (products_all db' ord) = set ks"
proof -
  from ok obtain k where k: "pk (oi_customer_id inp) = Some k"
    by (cases "pk (oi_customer_id inp)") (auto simp: create_order_unfold)
  from ok k obtain customer where c: "find (\<lambda>c. c_id c = k) (customers db) = Some customer"
    by (cases "find (\<lambda>c. c_id c = k) (customers db)") (auto simp: create_order_unfold)
  from ok k c obtain ks where ks: "those (map pk (oi_product_ids inp)) = Some ks"
    by (cases "those (map pk (oi_product_ids inp))") (auto simp: create_order_unfold)
  let ?ps = "filter (\<lambda>p. p_id p \<in> set ks) (products db)"
  let ?date = "case oi_order_date inp of None \<Rightarrow> now | Some d \<Rightarrow> d"
  let ?ord = "\<lparr>o_id = fresh_id (map o_id (orders db)), o_customer = c_id customer,
               o_total_amount = sum_list (map p_price ?ps), o_order_date = ?date\<rparr>"
  from ok k c ks have len: "length ?ps = length (oi_product_ids inp)"
    by (auto simp: create_order_unfold Let_def split: if_splits)
  from ok k c ks have ne: "?ps \<noteq> []"
    by (auto simp: create_order_unfold Let_def split: if_splits)
  from wf have d: "distinct (map p_id (products db))" by (simp add: wf_db_def)
  have lenk: "length ?ps = length ks"
    using len those_map_length [OF ks] by simp
  have sub: "set ks \<subseteq> p_id ` set (products db)"
    using resolved_all_requested [OF d lenk] by simp
  have ord: "ord = ?ord"
    and db': "db' = db\<lparr>orders := orders db @ [?ord],
                        order_products :=
                          filter (\<lambda>l. fst l \<noteq> o_id ?ord) (order_products db)
                          @ map (\<lambda>p. (o_id ?ord, p_id p)) ?ps\<rparr>"
    using ok k c ks len ne by (auto simp add: create_order_unfold Let_def)
  have tot: "o_total_amount ord = sum_list (map p_price ?ps)"
    using ord by simp
  have rows: "orders db' = orders db @ [ord]"
    using db' ord by simp
  have new: "o_id ord \<notin> set (map o_id (orders db))"
    using ord fresh_id_notin [of "map o_id (orders db)"] by simp
  have "find (\<lambda>r. o_id r = o_id ord) (orders db) = None"
    using new by (rule find_key_None)
  then have st: "stored_total db' (o_id ord) = Some (o_total_amount ord)"
    by (simp add: stored_total_def rows find_snoc)
  have all: "products_all db' ord = ?ps"
    unfolding db' ord by (rule products_all_after_set)
  have ids: "p_id ` set ?ps = set ks"
    using sub by auto
  have mem: "ord \<in> set (orders db')" using rows by simp
  from k c ks sub tot mem st all ids show ?thesis by auto
qed

theorem create_order_total_amount_witness:
  "wf_db demo_db
   \<and> create_order demo_pk 7 demo_db
         \<lparr>oi_customer_id = ''1'', oi_product_ids = [''1'', ''2''], oi_order_date = None\<rparr>
       = (demo_db\<lparr>orders := [\<lparr>o_id = 1, o_customer = 1, o_total_amount = 31 / 2,
                               o_order_date = 7\<rparr>],
                  order_products := [(1, 1), (1, 2)]\<rparr>,
          Inr (\<lparr>o_id = 1, o_customer = 1, o_total_amount = 31 / 2, o_order_date = 7\<rparr>,
               ''Order created successfully''))
   \<and> those (map demo_pk [''1'', ''2'']) = Some [1, 2]
   \<and> sum_list (map p_price (filter (\<lambda>p. p_id p \<in> set [1, 2]) (products demo_db)))
       = 10 + 11 / 2
   \<and> o_total_amount \<lparr>o_id = 1, o_customer = 1, o_total_amount = 31 / 2, o_order_date = 7\<rparr>
       = sum_list (map p_price (filter (\<lambda>p. p_id p \<in> set [1, 2]) (products demo_db)))
   \<and> p_id ` set (products_all
         (demo_db\<lparr>orders := [\<lparr>o_id = 1, o_customer = 1, o_total_amount = 31 / 2,
                               o_order_date = 7\<rparr>],
                  order_products := [(1, 1), (1, 2)]\<rparr>)
         \<lparr>o_id = 1, o_customer = 1, o_total_amount = 31 / 2, o_order_date = 7\<rparr>) = {1, 2}"
proof -
  have wf: "wf_db demo_db" by (simp add: demo_eval)
  have run: "create_order demo_pk 7 demo_db
         \<lparr>oi_customer_id = ''1'', oi_product_ids = [''1'', ''2''], oi_order_date = None\<rparr>
       = (demo_db\<lparr>orders := [\<lparr>o_id = 1, o_customer = 1, o_total_amount = 31 / 2,
                               o_order_date = 7\<rparr>],
                  order_products := [(1, 1), (1, 2)]\<rparr>,
          Inr (\<lparr>o_id = 1, o_customer = 1, o_total_amount = 31 / 2, o_order_date = 7\<rparr>,
               ''Order created successfully''))"
    by (simp add: demo_eval)
  have ks: "those (map demo_pk [''1'', ''2'']) = Some [1, 2]"
    by (simp add: demo_pk_def)
  have s: "sum_list (map p_price (filter (\<lambda>p. p_id p \<in> set [1, 2]) (products demo_db)))
             = 10 + 11 / 2"
    by (simp add: demo_eval)
  from create_order_total_amount [OF wf run] ks
  have "p_id ` set (products_all
         (demo_db\<lparr>orders := [\<lparr>o_id = 1, o_customer = 1, o_total_amount = 31 / 2,
                               o_order_date = 7\<rparr>],
                  order_products := [(1, 1), (1, 2)]\<rparr>)
         \<lparr>o_id = 1, o_customer = 1, o_total_amount = 31 / 2, o_order_date = 7\<rparr>) = set [1, 2]"
    by auto
  then show ?thesis using wf run ks s by simp
qed

text \<open>
  When all identifiers convert, a requested key that no product has makes the
  resolved products fewer than the requested identifiers: the call leaves the
  database as it was and fails with an error of kind \<open>NotFoundError\<close>, the one
  of the product check when the customer resolves.
\<close>

lemma create_order_unresolved_key:
  assumes wf: "wf_db db"
    and ck: "pk (oi_customer_id inp) = Some k"
    and ks: "those (map pk (oi_product_ids inp)) = Some ks"
    and i: "j \<in> set ks" "j \<notin> p_id ` set (products db)"
  shows "fst (create_order pk now db inp) = db
       \<and> (\<exists>e. snd (create_order pk now db inp) = Inl e \<and> kind_of e = Some NotFoundError)
       \<and> (find (\<lambda>c. c_id c = k) (customers db) \<noteq> None \<longrightarrow>
            snd (create_order pk now db inp) = Inl (GraphQLError ''Some product IDs are invalid''))"
proof -
  from wf have d: "distinct (map p_id (products db))" by (simp add: wf_db_def)
  have len: "length (filter (\<lambda>p. p_id p \<in> set ks) (products db))
               \<noteq> length (oi_product_ids inp)"
    using unresolved_key_length [OF d i] those_map_length [OF ks] by simp
  show ?thesis
  proof (cases "find (\<lambda>c. c_id c = k) (customers db)")
    case None
    then show ?thesis using ck by (simp add: create_order_unfold kind_of_simps)
  next
    case (Some customer)
    then show ?thesis using ck ks len by (simp add: create_order_unfold kind_of_simps)
  qed
qed

lemma create_order_unconvertible_product_id:
  assumes ck: "pk (oi_customer_id inp) = Some k"
    and c: "find (\<lambda>c. c_id c = k) (customers db) \<noteq> None"
    and i: "i \<in> set (oi_product_ids inp)" "pk i = None"
  shows "create_order pk now db inp = (db, Inl IdentifierError)"
  using ck c those_map_None [of i "oi_product_ids inp" pk, OF i]
  by (auto simp: create_order_unfold)

text \<open>
  Claim C2, at the product identifiers \<open>1\<close> and \<open>abc\<close> with customer \<open>1\<close>. The
  identifier \<open>abc\<close> resolves to no product; the lookup of the products cannot
  convert it and raises, and nothing catches the exception. The call ends
  with it, not with the error of the product check, and its kind is none of
  the specification's. No order is created.
\<close>

theorem create_order_nonnumeric_product_id:
  "demo_pk ''abc'' = None
   \<and> create_order demo_pk 7 demo_db
        \<lparr>oi_customer_id = ''1'', oi_product_ids = [''1'', ''abc''], oi_order_date = None\<rparr>
       = (demo_db, Inl IdentifierError)
   \<and> kind_of IdentifierError = None"
  by (simp add: demo_eval kind_of_def)




text \<open>
  Claim C5 as stated fails: with customer 1 present and the single requested
  identifier 7 resolving to nothing, the resolved product set is empty and the
  error is the one of the product check, whose kind is \<open>NotFoundError\<close>.
\<close>

theorem create_order_empty_counterexample:
  "those (map demo_pk [''7'']) = Some [7]
   \<and> filter (\<lambda>p. p_id p \<in> set [7]) (products demo_db) = []
   \<and> snd (create_order demo_pk 7 demo_db
            \<lparr>oi_customer_id = ''1'', oi_product_ids = [''7''], oi_order_date = None\<rparr>)
       = Inl (GraphQLError ''Some product IDs are invalid'')
   \<and> kind_of (GraphQLError ''Some product IDs are invalid'') \<noteq> Some ValidationError"
  by (simp add: demo_eval kind_of_def)

text \<open>
  Claim C5, amended. When the identifiers of the call convert to keys and the
  resolved product set is empty, \<open>create_order\<close> fails and leaves the database
  as it was, so no order without items is created. The error has kind
  \<open>ValidationError\<close> exactly when the customer resolves and the identifier
  list itself is empty; otherwise (the customer does not resolve, or
  identifiers were requested and none resolves) it has kind \<open>NotFoundError\<close>.
\<close>

theorem create_order_empty_resolved:
  assumes ck: "pk (oi_customer_id inp) = Some k"
    and ks: "those (map pk (oi_product_ids inp)) = Some ks"
    and empty: "filter (\<lambda>p. p_id p \<in> set ks) (products db) = []"
  shows "fst (create_order pk now db inp) = db
       \<and> (\<exists>e. snd (create_order pk now db inp) = Inl e
            \<and> (kind_of e = Some ValidationError \<longleftrightarrow>
                 find (\<lambda>c. c_id c = k) (customers db) \<noteq> None \<and> oi_product_ids inp = [])
            \<and> (kind_of e = Some NotFoundError \<longleftrightarrow>
                 find (\<lambda>c. c_id c = k) (customers db) = None \<or> oi_product_ids inp \<noteq> []))"
  using assms
  by (cases "find (\<lambda>c. c_id c = k) (customers db)")
     (auto simp: create_order_unfold kind_of_simps)

theorem create_order_empty_resolved_witness:
  "demo_pk ''1'' = Some 1 \<and> those (map demo_pk []) = Some []
   \<and> filter (\<lambda>p. p_id p \<in> set []) (products demo_db) = []
   \<and> find (\<lambda>c. c_id c = 1) (customers demo_db) \<noteq> None
   \<and> create_order demo_pk 7 demo_db
        \<lparr>oi_customer_id = ''1'', oi_product_ids = [], oi_order_date = None\<rparr>
       = (demo_db, Inl (GraphQLError ''Order must include at least one product''))
   \<and> kind_of (GraphQLError ''Order must include at least one product'') = Some ValidationError"
proof -
  let ?inp = "\<lparr>oi_customer_id = ''1'', oi_product_ids = [], oi_order_date = None\<rparr>"
  have ck: "demo_pk (oi_customer_id ?inp) = Some 1" by (simp add: demo_pk_def)
  have ks: "those (map demo_pk (oi_product_ids ?inp)) = Some []" by simp
  have e: "filter (\<lambda>p. p_id p \<in> set []) (products demo_db) = []" by simp
  have c: "find (\<lambda>c. c_id c = 1) (customers demo_db) \<noteq> None" by (simp add: demo_db_def)
  have r: "create_order demo_pk 7 demo_db ?inp
       = (demo_db, Inl (GraphQLError ''Order must include at least one product''))"
    by (simp add: demo_eval)
  show ?thesis
    using ck ks c r create_order_empty_resolved [OF ck ks e, of 7]
    by (simp add: kind_of_simps)
qed

lemma create_order_succeeds:
  assumes wf: "wf_db db"
    and ck: "pk (oi_customer_id inp) = Some k"
    and c: "find (\<lambda>c. c_id c = k) (customers db) \<noteq> None"
    and ks: "those (map pk (oi_product_ids inp)) = Some ks"
    and ne: "ks \<noteq> []"
    and d: "distinct ks"
    and sub: "set ks \<subseteq> p_id ` set (products db)"
  shows "\<exists>db' ord. create_order pk now db inp = (db', Inr (ord, ''Order created successfully''))"
proof -
  from wf have dp: "distinct (map p_id (products db))" by (simp add: wf_db_def)
  have "set ks \<inter> p_id ` set (products db) = set ks"
    using sub by auto
  then have lenk: "length (filter (\<lambda>p. p_id p \<in> set ks) (products db)) = length ks"
    using d by (simp add: length_filter_keys [OF dp] distinct_card)
  with ne have nonempty: "filter (\<lambda>p. p_id p \<in> set ks) (products db) \<noteq> []" by auto
  from lenk have len: "length (filter (\<lambda>p. p_id p \<in> set ks) (products db))
                         = length (oi_product_ids inp)"
    using those_map_length [OF ks] by simp
  from c obtain customer where "find (\<lambda>c. c_id c = k) (customers db) = Some customer"
    by auto
  with ck ks len nonempty show ?thesis by (simp add: create_order_unfold Let_def)
qed

section \<open>Customer creation: results\<close>

lemma create_customer_unfold:
  "create_customer validate_email isdigit db inp =
     (if \<not> validate_email (ci_email inp)
        then (db, Inl (GraphQLError ''Invalid email format''))
      else if email_exists db (ci_email inp)
        then (db, Inl (GraphQLError ''Email already exists''))
      else if phone_rejected isdigit (ci_phone inp)
        then (db, Inl (GraphQLError ''Invalid phone format. Use +1234567890 or 123-456-7890''))
      else
        (db\<lparr>customers := customers db @
              [\<lparr>c_id = fresh_id (map c_id (customers db)), c_name = ci_name inp,
                c_email = ci_email inp, c_phone = ci_phone inp\<rparr>]\<rparr>,
         Inr (\<lparr>c_id = fresh_id (map c_id (customers db)), c_name = ci_name inp,
                c_email = ci_email inp, c_phone = ci_phone inp\<rparr>,
              ''Customer created successfully'')))"
  by (simp add: create_customer_def Customer_objects_create_def Let_def)

lemma email_exists_iff: "email_exists db e \<longleftrightarrow> e \<in> set (map c_email (customers db))"
  by (auto simp: email_exists_def list_ex_iff)

lemma concat_split_hyphen: "concat (split_hyphen p) = remove_hyphens p"
  by (induction p) (auto simp: remove_hyphens_def split: list.splits)

lemma split_hyphen_nonempty: "split_hyphen p \<noteq> []"
  by (induction p) (auto split: list.splits)

lemma digit_groups_all_digits:
  "list_all spec_digits gs \<Longrightarrow> list_all is_digit_char (concat gs)"
  by (induction gs) (auto simp: spec_digits_def)

lemma digit_groups_concat:
  assumes "gs \<noteq> []" and "list_all spec_digits gs"
  shows "spec_digits (concat gs)"
proof -
  from assms obtain g gs' where "gs = g # gs'" and "g \<noteq> []"
    by (cases gs) (auto simp: spec_digits_def)
  then have "concat gs \<noteq> []" by simp
  then show ?thesis
    using digit_groups_all_digits [OF assms(2)] by (simp add: spec_digits_def)
qed

text \<open>
  Every phone of one of the two forms of the specification passes the guard,
  given that \<open>isdigit\<close> is true of the non-empty strings of ASCII digits, as
  \<open>str.isdigit\<close> is.
\<close>

lemma spec_phone_form_accepted:
  assumes digits: "\<And>s. spec_digits s \<Longrightarrow> isdigit s"
    and form: "spec_phone_form p"
  shows "\<not> phone_rejected isdigit (Some p)"
proof -
  from form consider "spec_plus_digits p" | "spec_digit_groups p"
    by (auto simp: spec_phone_form_def)
  then show ?thesis
  proof cases
    case 1
    then have "startswith p ''+''"
      by (cases p) (auto simp: spec_plus_digits_def startswith_def)
    then show ?thesis by (simp add: phone_rejected_def)
  next
    case 2
    then have "spec_digits (concat (split_hyphen p))"
      using split_hyphen_nonempty [of p]
      by (simp add: spec_digit_groups_def digit_groups_concat)
    then have "isdigit (remove_hyphens p)"
      using digits by (simp add: concat_split_hyphen)
    then show ?thesis by (simp add: phone_rejected_def)
  qed
qed

text \<open>
  When \<open>create_customer\<close> fails with the phone-format error: the email is
  well-formed and not yet present, and the phone is present, not empty, does
  not start with a plus sign, and \<open>isdigit\<close> is false of it once its hyphens
  are removed. A call with the phone omitted never fails so.
\<close>

lemma create_customer_phone_error_iff:
  "snd (create_customer validate_email isdigit db inp)
      = Inl (GraphQLError ''Invalid phone format. Use +1234567890 or 123-456-7890'')
    \<longleftrightarrow> validate_email (ci_email inp) \<and> \<not> email_exists db (ci_email inp)
        \<and> (case ci_phone inp of
              None \<Rightarrow> False
            | Some p \<Rightarrow> p \<noteq> [] \<and> \<not> startswith p ''+'' \<and> \<not> isdigit (remove_hyphens p))"
proof -
  have a: "snd (create_customer validate_email isdigit db inp)
      = Inl (GraphQLError ''Invalid phone format. Use +1234567890 or 123-456-7890'')
    \<longleftrightarrow> validate_email (ci_email inp) \<and> \<not> email_exists db (ci_email inp)
        \<and> phone_rejected isdigit (ci_phone inp)"
    by (simp add: create_customer_unfold)
  have b: "phone_rejected isdigit (ci_phone inp) \<longleftrightarrow>
        (case ci_phone inp of
              None \<Rightarrow> False
            | Some p \<Rightarrow> p \<noteq> [] \<and> \<not> startswith p ''+'' \<and> \<not> isdigit (remove_hyphens p))"
    by (simp add: phone_rejected_def split: option.splits)
  show ?thesis using a b by blast
qed

lemmas customer_eval = create_customer_unfold email_exists_def phone_rejected_def
  startswith_def ascii_isdigit_def remove_hyphens_def is_digit_char_def has_at_def
  fresh_id_def demo_db_def spec_phone_form_def spec_plus_digits_def spec_digit_groups_def
  spec_digits_def

text \<open>
  Claim C4, at the phone \<open>+abc\<close>. The phone has neither of the two forms of
  the claim, which are the two forms the error message of the source names,
  so the claim has the call fail. The guard checks only that the phone starts
  with a plus sign and never looks at what follows it: whatever \<open>isdigit\<close> is,
  \<open>create_customer\<close> accepts the phone and persists the customer.
\<close>

theorem create_customer_plus_prefix_accepted:
  "\<not> spec_phone_form ''+abc''
   \<and> create_customer has_at isdigit demo_db
        \<lparr>ci_name = ''Bob Smith'', ci_email = ''bob@example.com'', ci_phone = Some ''+abc''\<rparr>
      = (demo_db\<lparr>customers := customers demo_db @
            [\<lparr>c_id = 2, c_name = ''Bob Smith'', c_email = ''bob@example.com'',
              c_phone = Some ''+abc''\<rparr>]\<rparr>,
         Inr (\<lparr>c_id = 2, c_name = ''Bob Smith'', c_email = ''bob@example.com'',
                c_phone = Some ''+abc''\<rparr>, ''Customer created successfully''))"
  by (simp add: customer_eval)

lemma create_customer_keeps_unique_emails:
  assumes "distinct (map c_email (customers db))"
  shows "distinct (map c_email (customers (fst (create_customer validate_email isdigit db inp))))"
  using assms by (simp add: create_customer_unfold email_exists_iff)

lemma create_customer_keeps_validated:
  assumes "list_all (\<lambda>c. validate_email (c_email c)) (customers db)"
  shows "list_all (\<lambda>c. validate_email (c_email c))
           (customers (fst (create_customer validate_email isdigit db inp)))"
  using assms by (simp add: create_customer_unfold)

text \<open>
  Claim C6. In a database whose stored emails have all passed the validator
  (every customer written by a mutation has), a \<open>create_customer\<close> call with
  the email of a persisted customer leaves the database as it was and fails
  with the duplicate error, of kind \<open>DuplicateError\<close>, whatever its name and
  phone; and no call of \<open>create_customer\<close> breaks the uniqueness of the stored
  emails.
\<close>

theorem create_customer_duplicate_email:
  assumes validated: "list_all (\<lambda>c. validate_email (c_email c)) (customers db)"
    and dup: "ci_email inp \<in> set (map c_email (customers db))"
  shows "create_customer validate_email isdigit db inp
           = (db, Inl (GraphQLError ''Email already exists''))
       \<and> kind_of (GraphQLError ''Email already exists'') = Some DuplicateError
       \<and> (distinct (map c_email (customers db)) \<longrightarrow>
            distinct (map c_email
              (customers (fst (create_customer validate_email isdigit db inp2)))))"
proof -
  from validated dup have "validate_email (ci_email inp)"
    by (auto simp: list_all_iff)
  moreover from dup have "email_exists db (ci_email inp)"
    by (simp add: email_exists_iff)
  ultimately have "create_customer validate_email isdigit db inp
                     = (db, Inl (GraphQLError ''Email already exists''))"
    by (simp add: create_customer_unfold)
  moreover have "kind_of (GraphQLError ''Email already exists'') = Some DuplicateError"
    by (simp add: kind_of_def)
  ultimately show ?thesis
    using create_customer_keeps_unique_emails [of db validate_email isdigit inp2] by simp
qed

theorem create_customer_duplicate_email_witness:
  "list_all (\<lambda>c. has_at (c_email c)) (customers demo_db)
   \<and> ''alice@example.com'' \<in> set (map c_email (customers demo_db))
   \<and> create_customer has_at ascii_isdigit demo_db
        \<lparr>ci_name = ''Another Name'', ci_email = ''alice@example.com'', ci_phone = Some ''555-0100''\<rparr>
      = (demo_db, Inl (GraphQLError ''Email already exists''))
   \<and> create_customer has_at ascii_isdigit demo_db
        \<lparr>ci_name = ''Alice'', ci_email = ''alice@example.com'', ci_phone = None\<rparr>
      = (demo_db, Inl (GraphQLError ''Email already exists''))"
proof -
  have v: "list_all (\<lambda>c. has_at (c_email c)) (customers demo_db)"
    by (simp add: demo_db_def has_at_def)
  have d1: "ci_email \<lparr>ci_name = ''Another Name'', ci_email = ''alice@example.com'',
                      ci_phone = Some ''555-0100''\<rparr> \<in> set (map c_email (customers demo_db))"
    by (simp add: demo_db_def)
  have d2: "ci_email \<lparr>ci_name = ''Alice'', ci_email = ''alice@example.com'',
                      ci_phone = None\<rparr> \<in> set (map c_email (customers demo_db))"
    by (simp add: demo_db_def)
  show ?thesis
    using v d1 create_customer_duplicate_email [OF v d1, of ascii_isdigit]
      create_customer_duplicate_email [OF v d2, of ascii_isdigit]
    by simp
qed

section \<open>Bulk customer creation: results\<close>

lemma bulk_row_unfold:
  "bulk_row validate_email isdigit (idx, cust) (db, created_customers, errors) =
     (case row_failure validate_email isdigit db cust of
        Some msg \<Rightarrow> (db, created_customers, errors @ [''Row '' @ str_nat idx @ '': '' @ msg])
      | None \<Rightarrow>
          (fst (Customer_objects_create db (ci_name cust) (ci_email cust) (ci_phone cust)),
           created_customers
             @ [snd (Customer_objects_create db (ci_name cust) (ci_email cust) (ci_phone cust))],
           errors))"
  by (simp add: bulk_row_def row_failure_def split: prod.splits)

lemma fold_bulk_row:
  "fold (bulk_row validate_email isdigit) (enumerate idx rows) (db, created, errors) =
     (case row_results validate_email isdigit db idx rows of
        (db', outs) \<Rightarrow> (db', created @ rights outs, errors @ lefts outs))"
proof (induction rows arbitrary: idx db created errors)
  case Nil
  then show ?case by simp
next
  case (Cons cust rest)
  show ?case
  proof (cases "row_failure validate_email isdigit db cust")
    case None
    then show ?thesis
      by (simp add: bulk_row_unfold Cons.IH split: prod.splits)
  next
    case (Some msg)
    then show ?thesis
      by (simp add: bulk_row_unfold Cons.IH split: prod.splits)
  qed
qed

lemma row_results_Cons:
  "row_results validate_email isdigit db idx (cust # rest) =
     (case row_failure validate_email isdigit db cust of
        Some msg \<Rightarrow>
          (fst (row_results validate_email isdigit db (Suc idx) rest),
           Inl (''Row '' @ str_nat idx @ '': '' @ msg)
             # snd (row_results validate_email isdigit db (Suc idx) rest))
      | None \<Rightarrow>
          (fst (row_results validate_email isdigit
                  (fst (Customer_objects_create db (ci_name cust) (ci_email cust) (ci_phone cust)))
                  (Suc idx) rest),
           Inr (snd (Customer_objects_create db (ci_name cust) (ci_email cust) (ci_phone cust)))
             # snd (row_results validate_email isdigit
                  (fst (Customer_objects_create db (ci_name cust) (ci_email cust) (ci_phone cust)))
                  (Suc idx) rest)))"
  by (simp add: split_beta Let_def split: option.splits)









section \<open>Product creation: results\<close>

lemma create_product_unfold:
  "create_product Decimal column db inp =
     (case Decimal (pi_price inp) of
        None \<Rightarrow> (db, Inl (GraphQLError ''Invalid decimal format for price''))
      | Some NaN \<Rightarrow> (db, Inl InvalidOperation)
      | Some NegInfinity \<Rightarrow> (db, Inl (GraphQLError ''Price must be positive''))
      | Some Infinity \<Rightarrow>
          (if pi_stock inp < 0 then (db, Inl (GraphQLError ''Stock cannot be negative''))
           else (db, Inl ColumnValueError))
      | Some (Finite r) \<Rightarrow>
          (if r \<le> 0 then (db, Inl (GraphQLError ''Price must be positive''))
           else if pi_stock inp < 0 then (db, Inl (GraphQLError ''Stock cannot be negative''))
           else
             (case column r of
                None \<Rightarrow> (db, Inl ColumnValueError)
              | Some q \<Rightarrow>
                  (db\<lparr>products := products db @
                        [\<lparr>p_id = fresh_id (map p_id (products db)), p_name = pi_name inp,
                          p_description = None, p_stock = pi_stock inp, p_price = q\<rparr>]\<rparr>,
                   Inr (\<lparr>p_id = fresh_id (map p_id (products db)), p_name = pi_name inp,
                          p_description = None, p_stock = pi_stock inp, p_price = r\<rparr>,
                        ''Product created successfully'')))))"
  by (simp add: create_product_def Product_objects_create_def Let_def
           split: option.splits py_decimal.splits)

text \<open>
  The outcomes of \<open>create_product\<close> on a price string that the constructor
  reads as a finite decimal which the column holds, and the outcome on a
  string the constructor refuses.
\<close>

lemma create_product_finite:
  assumes "Decimal (pi_price inp) = Some (Finite r)" and "column r = Some q"
  shows "create_product Decimal column db inp =
          (if r \<le> 0 then (db, Inl (GraphQLError ''Price must be positive''))
           else if pi_stock inp < 0 then (db, Inl (GraphQLError ''Stock cannot be negative''))
           else
             (db\<lparr>products := products db @
                   [\<lparr>p_id = fresh_id (map p_id (products db)), p_name = pi_name inp,
                     p_description = None, p_stock = pi_stock inp, p_price = q\<rparr>]\<rparr>,
              Inr (\<lparr>p_id = fresh_id (map p_id (products db)), p_name = pi_name inp,
                     p_description = None, p_stock = pi_stock inp, p_price = r\<rparr>,
                   ''Product created successfully'')))"
  using assms by (simp add: create_product_unfold)

lemma create_product_unparsable:
  assumes "Decimal (pi_price inp) = None"
  shows "create_product Decimal column db inp
           = (db, Inl (GraphQLError ''Invalid decimal format for price''))"
  using assms by (simp add: create_product_unfold)

text \<open>
  Claim C7, at the price string \<open>NaN\<close>. The constructor, given here by its
  value on this one string, accepts it, so there is no format error; the
  comparison of the price with zero, which is outside the \<open>try\<close> block, then
  raises \<open>InvalidOperation\<close>. The call ends with that exception, which is none
  of the errors of the claim, and no product is stored.
\<close>

theorem create_product_nan_price:
  "create_product [''NaN'' \<mapsto> NaN] column demo_db
       \<lparr>pi_name = ''Widget'', pi_price = ''NaN'', pi_stock = 0\<rparr>
     = (demo_db, Inl InvalidOperation)
   \<and> kind_of InvalidOperation = None"
  by (simp add: create_product_unfold kind_of_def)

section \<open>Recomputing totals: results\<close>

lemma calculate_total_unfold:
  "calculate_total db self =
     (let total = sum_list (map p_price (products_all db self)) in
      if list_ex (\<lambda>r. o_id r = o_id self) (orders db)
        then (db\<lparr>orders := map (\<lambda>r. if o_id r = o_id self
                                       then r\<lparr>o_total_amount := total\<rparr> else r) (orders db)\<rparr>,
              self\<lparr>o_total_amount := total\<rparr>, Inr total)
      else (db, self\<lparr>o_total_amount := total\<rparr>, Inl DatabaseError))"
  by (simp add: calculate_total_def save_total_amount_def Let_def)

lemma find_updated_row:
  "find (\<lambda>r. o_id r = i)
        (map (\<lambda>r. if o_id r = i then r\<lparr>o_total_amount := t\<rparr> else r) rows)
     = map_option (\<lambda>r. r\<lparr>o_total_amount := t\<rparr>) (find (\<lambda>r. o_id r = i) rows)"
  by (induction rows) auto

lemma find_present:
  "i \<in> set (map f rows) \<Longrightarrow> \<exists>r. find (\<lambda>r. f r = i) rows = Some r"
  by (induction rows) auto

lemma row_exists_iff:
  "list_ex (\<lambda>r. o_id r = i) rows \<longleftrightarrow> i \<in> set (map o_id rows)"
  by (auto simp: list_ex_iff)



lemma calculate_total_result:
  assumes "o_id self \<in> set (map o_id (orders db))"
  shows "calculate_total db self
           = (db\<lparr>orders := map (\<lambda>r. if o_id r = o_id self
                   then r\<lparr>o_total_amount := sum_list (map p_price (products_all db self))\<rparr>
                   else r) (orders db)\<rparr>,
              self\<lparr>o_total_amount := sum_list (map p_price (products_all db self))\<rparr>,
              Inr (sum_list (map p_price (products_all db self))))"
  using assms by (simp add: calculate_total_unfold row_exists_iff Let_def)

lemma stored_total_after_calculate:
  assumes "o_id self \<in> set (map o_id (orders db))"
  shows "stored_total (fst (calculate_total db self)) (o_id self)
           = Some (sum_list (map p_price (products_all db self)))"
proof -
  from find_present [OF assms] obtain r where "find (\<lambda>r. o_id r = o_id self) (orders db) = Some r"
    by blast
  then show ?thesis
    by (simp add: calculate_total_result [OF assms] stored_total_def find_updated_row)
qed









text \<open>
  Claim C10. \<open>calculate_total\<close> leaves the customer and product tables and the
  links between orders and products as they were; in the order table the
  keys, customers and dates of all rows are unchanged, and so is every row of
  another order; the instance keeps its key, customer and date, and its
  linked products are the same; and the value returned is the one assigned to
  \<open>total_amount\<close> of the instance and stored in its row.
\<close>

theorem calculate_total_frame:
  assumes run: "calculate_total db self = (db', self', res)"
  shows "customers db' = customers db \<and> products db' = products db
       \<and> order_products db' = order_products db
       \<and> map o_id (orders db') = map o_id (orders db)
       \<and> map o_customer (orders db') = map o_customer (orders db)
       \<and> map o_order_date (orders db') = map o_order_date (orders db)
       \<and> (\<forall>k < length (orders db). o_id (orders db ! k) \<noteq> o_id self \<longrightarrow>
             orders db' ! k = orders db ! k)
       \<and> products_all db' self' = products_all db self
       \<and> o_id self' = o_id self \<and> o_customer self' = o_customer self
       \<and> o_order_date self' = o_order_date self
       \<and> (\<forall>total. res = Inr total \<longrightarrow>
             o_total_amount self' = total \<and> stored_total db' (o_id self) = Some total)"
proof (cases "o_id self \<in> set (map o_id (orders db))")
  case True
  let ?t = "sum_list (map p_price (products_all db self))"
  let ?f = "\<lambda>r. if o_id r = o_id self then r\<lparr>o_total_amount := ?t\<rparr> else r"
  from run calculate_total_result [OF True]
  have db': "db' = db\<lparr>orders := map ?f (orders db)\<rparr>"
    and self': "self' = self\<lparr>o_total_amount := ?t\<rparr>" and res: "res = Inr ?t"
    by simp_all
  have ids: "map o_id (map ?f rows) = map o_id rows"
    and cs: "map o_customer (map ?f rows) = map o_customer rows"
    and ds: "map o_order_date (map ?f rows) = map o_order_date rows" for rows
    by (induction rows) auto
  have st: "stored_total db' (o_id self) = Some ?t"
    using stored_total_after_calculate [OF True] run by simp
  have pa: "products_all db' self' = products_all db self"
    by (simp add: db' self' products_all_def)
  show ?thesis
    using ids cs ds st pa by (simp add: db' self' res)
next
  case False
  then have "calculate_total db self
               = (db, self\<lparr>o_total_amount := sum_list (map p_price (products_all db self))\<rparr>,
                  Inl DatabaseError)"
    by (simp add: calculate_total_unfold row_exists_iff Let_def)
  with run show ?thesis by (auto simp: products_all_def)
qed

lemmas total_eval = demo_orders_db_def demo_order_def demo_db_def calculate_total_unfold
  products_all_def change_price_def stored_total_def Let_def


theorem calculate_total_frame_witness:
  "calculate_total (change_price demo_orders_db 1 12) demo_order
     = ((change_price demo_orders_db 1 12)\<lparr>orders := [demo_order\<lparr>o_total_amount := 35 / 2\<rparr>]\<rparr>,
        demo_order\<lparr>o_total_amount := 35 / 2\<rparr>, Inr (35 / 2))
   \<and> o_customer (demo_order\<lparr>o_total_amount := 35 / 2\<rparr>) = o_customer demo_order
   \<and> o_order_date (demo_order\<lparr>o_total_amount := 35 / 2\<rparr>) = o_order_date demo_order
   \<and> products_all ((change_price demo_orders_db 1 12)
         \<lparr>orders := [demo_order\<lparr>o_total_amount := 35 / 2\<rparr>]\<rparr>)
         (demo_order\<lparr>o_total_amount := 35 / 2\<rparr>)
       = products_all (change_price demo_orders_db 1 12) demo_order"
proof -
  have run: "calculate_total (change_price demo_orders_db 1 12) demo_order
     = ((change_price demo_orders_db 1 12)\<lparr>orders := [demo_order\<lparr>o_total_amount := 35 / 2\<rparr>]\<rparr>,
        demo_order\<lparr>o_total_amount := 35 / 2\<rparr>, Inr (35 / 2))"
    by (simp add: total_eval)
  show ?thesis using run calculate_total_frame [OF run] by simp
qed

section \<open>Invariants of the database\<close>

text \<open>
  The hypotheses on the database used above hold of the empty database and
  are kept by every operation: keys stay unique, and stored emails stay
  validated and unique.
\<close>

lemma distinct_snoc_fresh:
  "distinct ids \<Longrightarrow> distinct (ids @ [fresh_id ids])"
  using fresh_id_notin [of ids] by simp

lemma wf_db_empty: "wf_db empty_db"
  by (simp add: wf_db_def empty_db_def)

lemma wf_db_Customer_objects_create:
  "wf_db db \<Longrightarrow> wf_db (fst (Customer_objects_create db name email phone))"
  using fresh_id_notin [of "map c_id (customers db)"]
  by (simp add: wf_db_def Customer_objects_create_def Let_def)

lemma wf_db_create_customer:
  "wf_db db \<Longrightarrow> wf_db (fst (create_customer validate_email isdigit db inp))"
  using fresh_id_notin [of "map c_id (customers db)"]
  by (simp add: wf_db_def create_customer_unfold)

lemma wf_db_row_results:
  "wf_db db \<Longrightarrow> wf_db (fst (row_results validate_email isdigit db idx rows))"
proof (induction rows arbitrary: db idx)
  case Nil
  then show ?case by simp
next
  case (Cons cust rest)
  show ?case
  proof (cases "row_failure validate_email isdigit db cust")
    case None
    then show ?thesis
      using Cons.IH [OF wf_db_Customer_objects_create [OF Cons.prems]]
      by (simp only: row_results_Cons) simp
  next
    case (Some msg)
    then show ?thesis
      using Cons.IH [OF Cons.prems] by (simp only: row_results_Cons) simp
  qed
qed

lemma bulk_create_customers_db:
  "fst (bulk_create_customers validate_email isdigit db input)
     = fst (row_results validate_email isdigit db 1 input)"
  unfolding bulk_create_customers_def
  using fold_bulk_row [of validate_email isdigit 1 input db "[]" "[]"]
  by (simp split: prod.splits)

lemma wf_db_bulk_create_customers:
  "wf_db db \<Longrightarrow> wf_db (fst (bulk_create_customers validate_email isdigit db input))"
  by (simp add: bulk_create_customers_db wf_db_row_results)

lemma wf_db_create_product:
  "wf_db db \<Longrightarrow> wf_db (fst (create_product Decimal column db inp))"
  using fresh_id_notin [of "map p_id (products db)"]
  by (simp add: wf_db_def create_product_unfold split: option.splits py_decimal.splits)

lemma wf_db_create_order:
  "wf_db db \<Longrightarrow> wf_db (fst (create_order pk now db inp))"
  using fresh_id_notin [of "map o_id (orders db)"]
  by (simp add: wf_db_def create_order_unfold Let_def split: option.splits)

lemma wf_db_calculate_total:
  "wf_db db \<Longrightarrow> wf_db (fst (calculate_total db self))"
proof -
  assume wf: "wf_db db"
  have k: "o_id \<circ> (\<lambda>r. if o_id r = i then r\<lparr>o_total_amount := t\<rparr> else r) = o_id" for i t
    by (auto simp: fun_eq_iff)
  show ?thesis
    using wf by (simp add: wf_db_def calculate_total_unfold Let_def k)
qed

lemma validated_row_results:
  "list_all (\<lambda>c. validate_email (c_email c)) (customers db) \<Longrightarrow>
     list_all (\<lambda>c. validate_email (c_email c))
       (customers (fst (row_results validate_email isdigit db idx rows)))"
proof (induction rows arbitrary: db idx)
  case Nil
  then show ?case by simp
next
  case (Cons cust rest)
  show ?case
  proof (cases "row_failure validate_email isdigit db cust")
    case None
    then have v: "validate_email (ci_email cust)"
      by (simp add: row_failure_def split: if_splits)
    have "list_all (\<lambda>c. validate_email (c_email c))
            (customers (fst (Customer_objects_create db (ci_name cust) (ci_email cust)
                               (ci_phone cust))))"
      using Cons.prems v by (simp add: Customer_objects_create_def Let_def)
    from Cons.IH [OF this] None show ?thesis
      by (simp only: row_results_Cons) simp
  next
    case (Some msg)
    then show ?thesis
      using Cons.IH [OF Cons.prems] by (simp only: row_results_Cons) simp
  qed
qed

lemma unique_emails_row_results:
  "distinct (map c_email (customers db)) \<Longrightarrow>
     distinct (map c_email (customers (fst (row_results validate_email isdigit db idx rows))))"
proof (induction rows arbitrary: db idx)
  case Nil
  then show ?case by simp
next
  case (Cons cust rest)
  show ?case
  proof (cases "row_failure validate_email isdigit db cust")
    case None
    then have n: "\<not> email_exists db (ci_email cust)"
      by (simp add: row_failure_def split: if_splits)
    have "distinct (map c_email
            (customers (fst (Customer_objects_create db (ci_name cust) (ci_email cust)
                               (ci_phone cust)))))"
      using Cons.prems n by (simp add: Customer_objects_create_def Let_def email_exists_iff)
    from Cons.IH [OF this] None show ?thesis
      by (simp only: row_results_Cons) simp
  next
    case (Some msg)
    then show ?thesis
      using Cons.IH [OF Cons.prems] by (simp only: row_results_Cons) simp
  qed
qed

lemma bulk_create_customers_keeps_validated:
  "list_all (\<lambda>c. validate_email (c_email c)) (customers db) \<Longrightarrow>
     list_all (\<lambda>c. validate_email (c_email c))
       (customers (fst (bulk_create_customers validate_email isdigit db input)))"
  by (simp add: bulk_create_customers_db validated_row_results)

lemma bulk_create_customers_keeps_unique_emails:
  "distinct (map c_email (customers db)) \<Longrightarrow>
     distinct (map c_email (customers (fst (bulk_create_customers validate_email isdigit db input))))"
  by (simp add: bulk_create_customers_db unique_emails_row_results)

end
